theory Spec2Isabelle
  imports Complex_Main "HOL-Library.FSet"
begin

section \<open>The MSFS\_API object: id allocator and event multiplexer\<close>

text \<open>
  The class \<^verbatim>\<open>MSFS_API\<close> keeps a counter \<^verbatim>\<open>this.id\<close>, a JavaScript \<^verbatim>\<open>Set\<close>
  of reserved ids and one plain object \<^verbatim>\<open>this.eventListeners\<close> that is keyed both by
  event name and by event id. Both keys of one subscription refer to the same entry
  object, which is mutated in place, so the entries live in a store (addresses are
  numbers, \<open>fresh\<close> is the next unused one) and the listener table maps property keys
  to addresses. A JavaScript property key is a string: the numeric key \<^verbatim>\<open>e[eventID]\<close>
  is the decimal rendering of the id. The table is a plain object, so reading a key finds
  an own property (an entry), or a member inherited from \<^verbatim>\<open>Object.prototype\<close>, or
  \<^verbatim>\<open>undefined\<close>. The object is connected (\<^verbatim>\<open>this.handle\<close> is set).

  Event handlers are JavaScript functions compared by reference; a handler is modelled
  by an identity, and each invocation is recorded with its argument. The calls made on
  the SimConnect handle are recorded in the order they are issued.
\<close>

type_synonym handler = nat

record entry =
  eventID :: int
  eventName :: string
  data :: "int option"
  handlers :: "handler list"

datatype call =
    SubscribeToSystemEvent int string
  | AddToDataDefinition int string string string
  | ClearDataDefinition int
  | RequestDataOnSimObject int int
  | SetDataOnSimObject int string

datatype exn = Error string | TypeError | SyntaxError

record api =
  id_ctr :: int
  reserved :: "int fset"
  eventListeners :: "string \<rightharpoonup> nat"
  store :: "nat \<Rightarrow> entry"
  fresh :: nat
  calls :: "call list"
  invoked :: "(handler \<times> int) list"
  console :: "string list"
  timers :: "(nat \<times> int) list"
  pendingGets :: "(int \<times> int \<times> string list) list"

definition new_api :: api where
  "new_api = \<lparr> id_ctr = 1, reserved = {||}, eventListeners = Map.empty,
     store = (\<lambda>_. \<lparr> eventID = 0, eventName = [], data = None, handlers = [] \<rparr>), fresh = 0,
     calls = [], invoked = [], console = [], timers = [], pendingGets = [] \<rparr>"

subsection \<open>nextId and releaseId\<close>

text \<open>
  \<^verbatim>\<open>let id = this.id++; while (this.reserved.has(id)) { id = this.id++; }\<close>
  The loop carries the object (whose counter it increments) and the local \<^verbatim>\<open>id\<close>.
  It ends on every state, because the reserved set is finite.
\<close>

function nextId_loop :: "api \<Rightarrow> int \<Rightarrow> int \<times> api" where
  "nextId_loop s i =
     (if i |\<in>| reserved s then nextId_loop (s\<lparr>id_ctr := id_ctr s + 1\<rparr>) (id_ctr s)
      else (i, s))"
  by pat_completeness auto
termination
proof (relation "measure (\<lambda>(s, i).
         2 * card {x \<in> fset (reserved s). id_ctr s \<le> x} + (if i |\<in>| reserved s then 1 else 0))")
  show "wf (measure (\<lambda>(s, i).
         2 * card {x \<in> fset (reserved s). id_ctr s \<le> x} + (if i |\<in>| reserved s then 1 else 0)))"
    by simp
next
  fix s :: api and i :: int
  assume m: "i |\<in>| reserved s"
  let ?A = "{x \<in> fset (reserved s). id_ctr s \<le> x}"
  let ?B = "{x \<in> fset (reserved s). id_ctr s + 1 \<le> x}"
  have fin: "finite ?A" by simp
  have sub: "?B \<subseteq> ?A" by auto
  have "2 * card ?B + (if id_ctr s |\<in>| reserved s then 1 else 0) < 2 * card ?A + 1"
  proof (cases "id_ctr s |\<in>| reserved s")
    case True
    then have "id_ctr s \<in> ?A" "id_ctr s \<notin> ?B" by auto
    with sub have "?B \<subset> ?A" by blast
    with fin have "card ?B < card ?A" by (rule psubset_card_mono)
    with True show ?thesis by simp
  next
    case False
    from fin sub have "card ?B \<le> card ?A" by (rule card_mono)
    with False show ?thesis by simp
  qed
  with m show "((s\<lparr>id_ctr := id_ctr s + 1\<rparr>, id_ctr s), (s, i)) \<in> measure (\<lambda>(s, i).
         2 * card {x \<in> fset (reserved s). id_ctr s \<le> x} + (if i |\<in>| reserved s then 1 else 0))"
    by simp
qed

declare nextId_loop.simps [simp del]

definition nextId :: "api \<Rightarrow> int \<times> api" where
  "nextId s =
     (let s1 = (if id_ctr s > 900 then s\<lparr>id_ctr := 0\<rparr> else s);
          i = id_ctr s1;
          s2 = s1\<lparr>id_ctr := id_ctr s1 + 1\<rparr>;
          (i', s3) = nextId_loop s2 i
      in (i', s3\<lparr>reserved := finsert i' (reserved s3)\<rparr>))"

definition releaseId :: "int \<Rightarrow> api \<Rightarrow> api" where
  "releaseId i s = s\<lparr>reserved := reserved s |-| {|i|}\<rparr>"

text \<open>A sequence of allocator calls on one instance.\<close>

datatype alloc_op = NextId | ReleaseId int

fun alloc_step :: "alloc_op \<Rightarrow> api \<Rightarrow> api" where
  "alloc_step NextId s = snd (nextId s)"
| "alloc_step (ReleaseId i) s = releaseId i s"

definition alloc_run :: "alloc_op list \<Rightarrow> api \<Rightarrow> api" where
  "alloc_run ops s = fold alloc_step ops s"

text \<open>A completed request: an id is taken and released again (as \<^verbatim>\<open>get\<close> does).\<close>

definition cycle_ops :: "int list \<Rightarrow> alloc_op list" where
  "cycle_ops ids = concat (map (\<lambda>i. [NextId, ReleaseId i]) ids)"

subsection \<open>Property keys\<close>

text \<open>\<^verbatim>\<open>e[eventID]\<close> uses the number as a property key: its decimal rendering.\<close>

function digits :: "nat \<Rightarrow> string" where
  "digits n = (if n < 10 then [''0123456789'' ! n]
               else digits (n div 10) @ [''0123456789'' ! (n mod 10)])"
  by pat_completeness auto
termination
  by (relation "measure (\<lambda>n. n)") auto

declare digits.simps [simp del]

definition numToString :: "int \<Rightarrow> string" where
  "numToString i = (if i < 0 then CHR ''-'' # digits (nat (- i)) else digits (nat i))"

subsection \<open>Reading the listener table\<close>

text \<open>
  \<^verbatim>\<open>this.eventListeners = {}\<close>: the names that every plain object inherits from
  \<^verbatim>\<open>Object.prototype\<close>. Each of them reads as a function, or for \<^verbatim>\<open>__proto__\<close> as the
  prototype object: a truthy value without a \<^verbatim>\<open>handlers\<close> property.
\<close>

definition prototype_names :: "string list" where
  "prototype_names =
     [''constructor'', ''__defineGetter__'', ''__defineSetter__'', ''hasOwnProperty'',
      ''__lookupGetter__'', ''__lookupSetter__'', ''isPrototypeOf'', ''propertyIsEnumerable'',
      ''toString'', ''valueOf'', ''__proto__'', ''toLocaleString'']"

datatype property = Missing | Inherited | Own nat

definition getProp :: "api \<Rightarrow> string \<Rightarrow> property" where
  "getProp s key =
     (case eventListeners s key of
        Some a \<Rightarrow> Own a
      | None \<Rightarrow> if key \<in> set prototype_names then Inherited else Missing)"

subsection \<open>addEventListener, removeEventListener, handleSystemEvent, on, off\<close>

text \<open>\<^verbatim>\<open>if (data) eventHandler(data)\<close>: \<^verbatim>\<open>undefined\<close> and the number 0 are falsy.\<close>

fun truthy :: "int option \<Rightarrow> bool" where
  "truthy None = False"
| "truthy (Some d) = (d \<noteq> 0)"

text \<open>
  \<^verbatim>\<open>if (!e[eventName]) { ... } else { e[eventName].handlers.push(eventHandler); ... }\<close>
  For an inherited name the test takes the else branch, where \<^verbatim>\<open>handlers\<close> is
  \<^verbatim>\<open>undefined\<close> and \<^verbatim>\<open>push\<close> throws a TypeError with nothing changed. The result is
  the exception, if any, and the object after the call.
\<close>

definition addEventListener :: "string \<Rightarrow> handler \<Rightarrow> api \<Rightarrow> exn option \<times> api" where
  "addEventListener evName eventHandler s =
     (case getProp s evName of
        Missing \<Rightarrow>
          (let (evID, s1) = nextId s;
               s2 = s1\<lparr>calls := calls s1 @ [SubscribeToSystemEvent evID evName]\<rparr>;
               a = fresh s2;
               s3 = s2\<lparr>store := (store s2)(a := \<lparr> eventID = evID, eventName = evName,
                                                    data = None, handlers = [eventHandler] \<rparr>),
                       fresh := a + 1,
                       eventListeners := (eventListeners s2)(evName \<mapsto> a)\<rparr>
           in (None, s3\<lparr>eventListeners := (eventListeners s3)(numToString evID \<mapsto> a)\<rparr>))
      | Inherited \<Rightarrow> (Some TypeError, s)
      | Own a \<Rightarrow>
          (let obj = store s a;
               s1 = s\<lparr>store := (store s)(a := obj\<lparr>handlers := handlers obj @ [eventHandler]\<rparr>)\<rparr>
           in case data obj of
                None \<Rightarrow> (None, s1)
              | Some d \<Rightarrow> if truthy (Some d)
                          then (None, s1\<lparr>invoked := invoked s1 @ [(eventHandler, d)]\<rparr>)
                          else (None, s1)))"

text \<open>\<^verbatim>\<open>findIndex\<close> gives -1 when nothing matches; \<^verbatim>\<open>splice(pos, 1)\<close> removes one element.\<close>

fun findIndex :: "('a \<Rightarrow> bool) \<Rightarrow> 'a list \<Rightarrow> int" where
  "findIndex P [] = - 1"
| "findIndex P (x # xs) =
     (if P x then 0 else (let r = findIndex P xs in if r = - 1 then - 1 else r + 1))"

definition splice1 :: "int \<Rightarrow> 'a list \<Rightarrow> 'a list" where
  "splice1 pos xs = take (nat pos) xs @ drop (nat pos + 1) xs"

text \<open>
  \<^verbatim>\<open>const obj = e[eventName]; const pos = obj.handlers.findIndex(...)\<close>: reading
  \<^verbatim>\<open>handlers\<close> of \<^verbatim>\<open>undefined\<close> throws a TypeError, and so does calling
  \<^verbatim>\<open>findIndex\<close> on the missing \<^verbatim>\<open>handlers\<close> of an inherited member, before anything
  is changed.
\<close>

definition removeEventListener :: "string \<Rightarrow> handler \<Rightarrow> api \<Rightarrow> exn + api" where
  "removeEventListener evName eventHandler s =
     (case getProp s evName of
        Missing \<Rightarrow> Inl TypeError
      | Inherited \<Rightarrow> Inl TypeError
      | Own a \<Rightarrow>
          (let obj = store s a;
               pos = findIndex (\<lambda>h. h = eventHandler) (handlers obj)
           in if pos > - 1
              then Inr (s\<lparr>store := (store s)(a := obj\<lparr>handlers := splice1 pos (handlers obj)\<rparr>)\<rparr>)
              else Inr s))"

text \<open>
  \<^verbatim>\<open>const entry = this.eventListeners[eventID]\<close>: the key is the decimal rendering of a
  number, which is none of the inherited names (\<open>numToString_not_inherited\<close> below), so
  the key is either missing or an entry.
\<close>

definition handleSystemEvent :: "int \<Rightarrow> int \<Rightarrow> api \<Rightarrow> api" where
  "handleSystemEvent clientEventId d s =
     (case eventListeners s (numToString clientEventId) of
        None \<Rightarrow> s\<lparr>console := console s @
                   [''handling data for id '' @ numToString clientEventId
                    @ '' without an event handler entry??'']\<rparr>
      | Some a \<Rightarrow>
          (let s1 = s\<lparr>store := (store s)(a := (store s a)\<lparr>data := Some d\<rparr>)\<rparr>
           in s1\<lparr>invoked := invoked s1 @ map (\<lambda>h. (h, d)) (handlers (store s1 a))\<rparr>))"

text \<open>
  \<^verbatim>\<open>on\<close> takes an event definition (here its \<^verbatim>\<open>name\<close>, or nothing) and returns the
  matching \<^verbatim>\<open>off\<close> closure, given by the two arguments it captures, unless the
  registration throws. The two airport events take a branch of their own that does the
  same.
\<close>

definition off :: "string \<Rightarrow> handler \<Rightarrow> api \<Rightarrow> exn + api" where
  "off evName eventHandler s = removeEventListener evName eventHandler s"

definition subscribeToAirports ::
  "string \<Rightarrow> handler \<Rightarrow> api \<Rightarrow> (exn + (string \<times> handler) option) \<times> api" where
  "subscribeToAirports evName eventHandler s =
     (case addEventListener evName eventHandler s of
        (Some x, s') \<Rightarrow> (Inl x, s')
      | (None, s') \<Rightarrow> (Inr (Some (evName, eventHandler)), s'))"

definition on ::
  "string list \<Rightarrow> string option \<Rightarrow> handler \<Rightarrow> api \<Rightarrow> (exn + (string \<times> handler) option) \<times> api" where
  "on airports eventDefinition eventHandler s =
     (case eventDefinition of
        None \<Rightarrow> (Inr None, s\<lparr>console := console s @ [''on() called without an event definition'']\<rparr>)
      | Some evName \<Rightarrow>
          if evName \<in> set airports then subscribeToAirports evName eventHandler s
          else (case addEventListener evName eventHandler s of
                  (Some x, s') \<Rightarrow> (Inl x, s')
                | (None, s') \<Rightarrow> (Inr (Some (evName, eventHandler)), s')))"






subsection \<open>get and set\<close>

text \<open>
  The table \<^verbatim>\<open>SimVars\<close> (property name to definition) is imported from a module that is
  not part of the code at hand; it is a parameter, a finite map from names to definitions.
  A definition carries its units, its data type and a \<^verbatim>\<open>write\<close> function
  (\<open>write_val\<close>) that encodes a value into a buffer and may throw. The value passed to
  \<^verbatim>\<open>set\<close> is first put through the number-as-string coercion (\<^verbatim>\<open>parseFloat\<close>), a
  parameter too.
\<close>

record 'v simvar_def =
  units :: string
  data_type :: string
  write_val :: "'v \<Rightarrow> exn + string"

definition replaceAll :: "char \<Rightarrow> char \<Rightarrow> string \<Rightarrow> string" where
  "replaceAll a b str = map (\<lambda>c. if c = a then b else c) str"

definition unknown_msg :: "string \<Rightarrow> string \<Rightarrow> string" where
  "unknown_msg verb propName =
     ''Cannot '' @ verb @ '' SimVar: '' @ [CHR 0x22] @ propName @ [CHR 0x22] @ '' unknown.''"

text \<open>
  \<^verbatim>\<open>propNames.forEach((propName, pos) => { const def = defs[pos]; ... })\<close>: the loop walks
  both lists; a position past the end of \<^verbatim>\<open>defs\<close> reads \<^verbatim>\<open>undefined\<close>.
\<close>

fun addDataDefinitions ::
  "int \<Rightarrow> string list \<Rightarrow> 'v simvar_def option list \<Rightarrow> api \<Rightarrow> exn option \<times> api" where
  "addDataDefinitions DATA_ID [] defs s = (None, s)"
| "addDataDefinitions DATA_ID (propName # rest) defs s =
     (case (case defs of [] \<Rightarrow> None | d # _ \<Rightarrow> d) of
        None \<Rightarrow>
          (Some (Error (unknown_msg ''get'' propName)),
           releaseId DATA_ID (s\<lparr>calls := calls s @ [ClearDataDefinition DATA_ID]\<rparr>))
      | Some def \<Rightarrow>
          addDataDefinitions DATA_ID rest (tl defs)
            (s\<lparr>calls := calls s @ [AddToDataDefinition DATA_ID propName (units def) (data_type def)]\<rparr>))"

definition generateGetPromise :: "int \<Rightarrow> int \<Rightarrow> string list \<Rightarrow> api \<Rightarrow> api" where
  "generateGetPromise DATA_ID REQUEST_ID propNames s =
     s\<lparr>pendingGets := pendingGets s @ [(REQUEST_ID, DATA_ID, propNames)],
       calls := calls s @ [RequestDataOnSimObject REQUEST_ID DATA_ID]\<rparr>"

definition get :: "(string \<rightharpoonup> 'v simvar_def) \<Rightarrow> string list \<Rightarrow> api \<Rightarrow> exn option \<times> api" where
  "get SimVars propNames s =
     (let (DATA_ID, s1) = nextId s;
          REQUEST_ID = DATA_ID;
          propNames' = map (replaceAll CHR ''_'' CHR '' '') propNames;
          defs = map SimVars propNames'
      in case addDataDefinitions DATA_ID propNames' defs s1 of
           (Some e, s2) \<Rightarrow> (Some e, s2)
         | (None, s2) \<Rightarrow> (None, generateGetPromise DATA_ID REQUEST_ID propNames' s2))"

text \<open>The answer to a pending \<^verbatim>\<open>get\<close>: the definition is cleared and the id released.\<close>

definition handleDataRequest :: "int \<Rightarrow> api \<Rightarrow> api" where
  "handleDataRequest requestID s =
     fold (\<lambda>(REQUEST_ID, DATA_ID, propNames) t.
             if requestID = REQUEST_ID
             then releaseId DATA_ID
                    (t\<lparr>pendingGets := remove1 (REQUEST_ID, DATA_ID, propNames) (pendingGets t),
                       calls := calls t @ [ClearDataDefinition DATA_ID]\<rparr>)
             else t)
          (pendingGets s) s"

text \<open>
  \<^verbatim>\<open>set\<close>: the cleanup runs from a timer, 500 ms later; the timer is recorded with the
  id it will release.
\<close>

definition set_simvar ::
  "(string \<rightharpoonup> 'v simvar_def) \<Rightarrow> ('v \<Rightarrow> 'v) \<Rightarrow> string \<Rightarrow> 'v \<Rightarrow> api \<Rightarrow> exn option \<times> api" where
  "set_simvar SimVars coerce propName val s =
     (let propName' = replaceAll CHR ''_'' CHR '' '' propName;
          val' = coerce val;
          (DATA_ID, s1) = nextId s
      in case SimVars propName' of
           None \<Rightarrow> (Some (Error (unknown_msg ''set'' propName')), releaseId DATA_ID s1)
         | Some def \<Rightarrow>
             (case write_val def val' of
                Inl e \<Rightarrow> (Some e, s1)
              | Inr buffer \<Rightarrow>
                  (None, s1\<lparr>calls := calls s1 @
                              [AddToDataDefinition DATA_ID propName' (units def) (data_type def),
                               SetDataOnSimObject DATA_ID buffer],
                            timers := timers s1 @ [(500, DATA_ID)]\<rparr>)))"

definition set_cleanup :: "int \<Rightarrow> api \<Rightarrow> api" where
  "set_cleanup DATA_ID s =
     (let s1 = releaseId DATA_ID s in s1\<lparr>calls := calls s1 @ [ClearDataDefinition DATA_ID]\<rparr>)"

section \<open>The airport handler\<close>

subsection \<open>Paginated retrieval of the facility list\<close>

text \<open>
  \<^verbatim>\<open>init\<close> registers a handler for \<^verbatim>\<open>airportList\<close> messages and requests the list.
  Each message carries \<^verbatim>\<open>requestID\<close>, \<^verbatim>\<open>airports\<close>, \<^verbatim>\<open>entryNumber\<close> and \<^verbatim>\<open>outOf\<close>.
  The emitter calls the handler only while it is registered (\<open>listening\<close>);
  \<^verbatim>\<open>handle.off\<close> unregisters it and \<^verbatim>\<open>resolve()\<close> lets \<^verbatim>\<open>init\<close> go on.
\<close>

record 'a airportList =
  requestID :: int
  airports :: "'a list"
  entryNumber :: int
  outOf :: int

record 'a listing =
  entries :: "'a list"
  listening :: bool
  resolved :: bool

definition list_handler :: "int \<Rightarrow> 'a airportList \<Rightarrow> 'a listing \<Rightarrow> 'a listing" where
  "list_handler requestId d st =
     (if requestID d = requestId
      then (let st1 = st\<lparr>entries := entries st @ airports d\<rparr>
            in if entryNumber d \<ge> outOf d - 1
               then st1\<lparr>listening := False, resolved := True\<rparr>
               else st1)
      else st)"

definition emit_airportList :: "int \<Rightarrow> 'a airportList \<Rightarrow> 'a listing \<Rightarrow> 'a listing" where
  "emit_airportList requestId d st = (if listening st then list_handler requestId d st else st)"

definition requestFacilitiesList :: "int \<Rightarrow> 'a airportList list \<Rightarrow> 'a listing" where
  "requestFacilitiesList requestId pages =
     fold (emit_airportList requestId) pages \<lparr>entries = [], listening = True, resolved = False\<rparr>"

subsection \<open>Airports\<close>

record ils =
  ils_type :: "string option"
  ils_icao :: string
  ils_region :: string

record approach =
  designation :: "string option"
  marking :: "string option"
  ILS :: ils

record runway =
  rw_latitude :: real
  rw_longitude :: real
  rw_altitude :: real
  heading :: real
  length_m :: real
  width :: real
  patternAltitude :: real
  slope :: real
  slopeTrue :: real
  surface :: "string option"
  approaches :: "approach list"

record airport =
  icao :: string
  latitude :: real
  longitude :: real
  altitude :: real
  declination :: real
  name :: string
  name64 :: string
  region :: string
  runwayCount :: int
  runways :: "runway list"

text \<open>
  \<^verbatim>\<open>{ ...airport, distance: d / KM_PER_NM }\<close>: an airport with one more field. The
  numbers in these records are data, read from the simulator or from the cache file;
  nothing is computed with them here.
\<close>

record nearby_airport = airport +
  distance :: real

subsection \<open>Loading the cache, or building it\<close>

text \<open>
  The file system, zlib and the JSON parser are outside the code: what they return for the
  cache file is given by an environment. \<^verbatim>\<open>gunzipSync(undefined)\<close> throws a TypeError and
  \<^verbatim>\<open>JSON.parse(undefined)\<close> a SyntaxError. A parsed text is an array of airports,
  \<^verbatim>\<open>null\<close>, or another value with whatever its \<^verbatim>\<open>length\<close> property is. The details
  of one airport, as the simulator answers the request for them, are given by \<open>fetch\<close>:
  every request is answered (a request without an answer would leave \<^verbatim>\<open>init\<close> waiting).
  The \<open>log\<close> holds the console messages other than the progress lines of the build.
\<close>

datatype json = JArray "airport list" | JNull | JOther "int option"

record 'a env =
  existsSync :: bool
  readFileSync :: "exn + string"
  gunzipSync :: "string \<Rightarrow> exn + string"
  JSON_parse :: "string \<Rightarrow> exn + json"
  fetch :: "'a \<Rightarrow> airport"
  writeFileSync :: "airport list \<Rightarrow> exn option"

record handler_state =
  cache :: "json option"
  closes :: nat
  log :: "string list"
  written :: "airport list option"
  finished :: bool

definition new_handler :: handler_state where
  "new_handler = \<lparr> cache = None, closes = 0, log = [], written = None, finished = False \<rparr>"

fun gunzip :: "(string \<Rightarrow> exn + string) \<Rightarrow> string option \<Rightarrow> exn + string" where
  "gunzip g None = Inl TypeError"
| "gunzip g (Some z) = g z"

fun parse :: "(string \<Rightarrow> exn + json) \<Rightarrow> string option \<Rightarrow> exn + json" where
  "parse p None = Inl SyntaxError"
| "parse p (Some j) = p j"

text \<open>\<^verbatim>\<open>this.airports.length\<close>: reading a property of \<^verbatim>\<open>null\<close> throws.\<close>

fun json_length :: "json \<Rightarrow> exn + int option" where
  "json_length (JArray xs) = Inr (Some (int (length xs)))"
| "json_length JNull = Inl TypeError"
| "json_length (JOther l) = Inr l"

text \<open>
  The sequential loop \<^verbatim>\<open>processAirports\<close>: one entry is taken from the front, its details
  are awaited and appended, and the loop goes on with the rest.
\<close>

fun processAirports :: "('a \<Rightarrow> airport) \<Rightarrow> 'a list \<Rightarrow> airport list \<Rightarrow> airport list" where
  "processAirports f [] acc = acc"
| "processAirports f (entry # rest) acc = processAirports f rest (acc @ [f entry])"

definition rebuild :: "'a env \<Rightarrow> 'a list \<Rightarrow> handler_state \<Rightarrow> exn + handler_state" where
  "rebuild e lst st =
     (let st1 = st\<lparr>log := log st @ [''No airport database found: building a new one.'']\<rparr>;
          st2 = st1\<lparr>cache := Some (JArray [])\<rparr>;
          built = processAirports (fetch e) lst [];
          st3 = st2\<lparr>cache := Some (JArray built), closes := closes st2 + 1\<rparr>
      in case writeFileSync e built of
           Some x \<Rightarrow> Inl x
         | None \<Rightarrow> Inr (st3\<lparr>written := Some built, finished := True\<rparr>))"

text \<open>
  The part of \<^verbatim>\<open>init\<close> after the list has been retrieved. Each \<^verbatim>\<open>try\<close> block is a
  case distinction on what its body returns; the third block also catches what
  \<^verbatim>\<open>this.airports.length\<close> throws after the assignment and \<^verbatim>\<open>handle.close()\<close>.
\<close>

definition init_cache :: "'a env \<Rightarrow> 'a list \<Rightarrow> handler_state \<Rightarrow> exn + handler_state" where
  "init_cache e lst st =
     (let airportCount = int (length lst)
      in if existsSync e
         then
           (let (zipped, st1) =
                  (case readFileSync e of
                     Inl x \<Rightarrow> (None, st\<lparr>log := log st @ [''file read error:'']\<rparr>)
                   | Inr z \<Rightarrow> (Some z, st));
                (jsn, st2) =
                  (case gunzip (gunzipSync e) zipped of
                     Inl x \<Rightarrow> (None, st1\<lparr>log := log st1 @ [''zlib error:'']\<rparr>)
                   | Inr j \<Rightarrow> (Some j, st1))
            in case parse (JSON_parse e) jsn of
                 Inl x \<Rightarrow> rebuild e lst (st2\<lparr>log := log st2 @ [''JSON parse error:'']\<rparr>)
               | Inr v \<Rightarrow>
                   (let st3 = st2\<lparr>cache := Some v, closes := closes st2 + 1\<rparr>
                    in case json_length v of
                         Inl x \<Rightarrow> rebuild e lst (st3\<lparr>log := log st3 @ [''JSON parse error:'']\<rparr>)
                       | Inr len \<Rightarrow>
                           (let st4 = (if len \<noteq> Some airportCount
                                       then st3\<lparr>log := log st3 @
                                              [''MSFS has '' @ numToString airportCount
                                               @ '' airports, db has ''
                                               @ (case len of None \<Rightarrow> ''undefined''
                                                  | Some l \<Rightarrow> numToString l)
                                               @ '' airports.'',
                                               ''You may need to update your version of msfs-simconnet-api-wrapper...'']\<rparr>
                                       else st3)
                            in Inr (st4\<lparr>finished := True\<rparr>))))
         else rebuild e lst st)"

subsection \<open>Queries\<close>

text \<open>
  \<^verbatim>\<open>get\<close> dispatches on the name of the variable. The branch for the nearby airports
  awaits \<^verbatim>\<open>getAllNearbyAirports\<close>, which asks the simulator for the position of the
  plane and computes with floating-point numbers (a rounded product, rounded quotients,
  comparisons of doubles); that computation is not modelled, and what it returns for a
  name is given (\<open>nearby\<close>).
\<close>

definition NEARBY_AIRPORTS :: string where
  "NEARBY_AIRPORTS = ''NEARBY AIRPORTS''"

definition ALL_AIRPORTS :: string where
  "ALL_AIRPORTS = ''ALL AIRPORTS''"

definition AIRPORT :: string where
  "AIRPORT = ''AIRPORT:''"

definition startsWith :: "string \<Rightarrow> string \<Rightarrow> bool" where
  "startsWith str pre = (take (length pre) str = pre)"

definition getVarArg :: "string \<Rightarrow> string option" where
  "getVarArg varName =
     (if CHR '':'' \<notin> set varName then None
      else Some (drop (length (takeWhile (\<lambda>c. c \<noteq> CHR '':'') varName) + 1) varName))"

datatype result =
    Undefined
  | AirportVal airport
  | AirportArray "airport list"
  | NearbyArray "nearby_airport list"
  | Object "(string \<times> result) list"

definition getAirport :: "airport list \<Rightarrow> string \<Rightarrow> result" where
  "getAirport cached varName =
     (let arg = getVarArg varName
      in Object [(varName,
           (case find (\<lambda>a. Some (icao a) = arg) cached of
              None \<Rightarrow> Undefined
            | Some a \<Rightarrow> AirportVal a))])"

definition airport_get :: "(string \<Rightarrow> nearby_airport list) \<Rightarrow> airport list \<Rightarrow> string \<Rightarrow> result" where
  "airport_get nearby cached varName =
     (let propName = replaceAll CHR '' '' CHR ''_'' varName
      in if varName = ALL_AIRPORTS then Object [(propName, AirportArray cached)]
         else if startsWith varName NEARBY_AIRPORTS
         then Object [(propName, NearbyArray (nearby varName))]
         else if startsWith varName AIRPORT
         then Object [(propName, getAirport cached varName)]
         else Object [])"

section \<open>Auxiliary notions and example data\<close>


text \<open>
  The calls that \<^verbatim>\<open>addDataDefinitions\<close> has issued for the names in front of the first
  unknown one.
\<close>

definition known_defs :: "int \<Rightarrow> (string \<rightharpoonup> 'v simvar_def) \<Rightarrow> string list \<Rightarrow> call list" where
  "known_defs DATA_ID SimVars names =
     concat (map (\<lambda>n. case SimVars n of None \<Rightarrow> []
                       | Some def \<Rightarrow> [AddToDataDefinition DATA_ID n (units def) (data_type def)])
              (takeWhile (\<lambda>n. SimVars n \<noteq> None) names))"

text \<open>A table with one property, a page of the facility list, and airports for the examples.\<close>

definition demo_vars :: "string \<rightharpoonup> int simvar_def" where
  "demo_vars = [''PLANE LATITUDE'' \<mapsto>
     \<lparr> units = ''radians'', data_type = ''FLOAT64'', write_val = (\<lambda>v. Inr []) \<rparr>]"

definition page_of_3 :: "int \<Rightarrow> string list \<Rightarrow> string airportList" where
  "page_of_3 n xs = \<lparr>requestID = 100, airports = xs, entryNumber = n, outOf = 3\<rparr>"

definition at_lat :: "string \<Rightarrow> real \<Rightarrow> airport" where
  "at_lat code deg = \<lparr> icao = code, latitude = deg, longitude = 0, altitude = 0,
     declination = 0, name = code, name64 = code, region = [],
     runwayCount = 0, runways = [] \<rparr>"

text \<open>An environment in which the cache file exists and cannot be read.\<close>

definition unreadable :: "string env" where
  "unreadable = \<lparr> existsSync = True, readFileSync = Inl (Error ''EACCES''),
     gunzipSync = (\<lambda>z. Inr z), JSON_parse = (\<lambda>j. Inr (JArray [])),
     fetch = (\<lambda>code. at_lat code 0), writeFileSync = (\<lambda>xs. None) \<rparr>"

text \<open>
  An environment in which the path of the cache file is a directory: it exists, reading it
  fails and writing it fails.
\<close>

definition unwritable :: "string env" where
  "unwritable = \<lparr> existsSync = True, readFileSync = Inl (Error ''EISDIR''),
     gunzipSync = (\<lambda>z. Inr z), JSON_parse = (\<lambda>j. Inr (JArray [])),
     fetch = (\<lambda>code. at_lat code 0), writeFileSync = (\<lambda>xs. Some (Error ''EISDIR'')) \<rparr>"

text \<open>An environment in which the cache file holds one airport.\<close>

definition stale :: "string env" where
  "stale = \<lparr> existsSync = True, readFileSync = Inr ''zipped'',
     gunzipSync = (\<lambda>z. Inr ''json''), JSON_parse = (\<lambda>j. Inr (JArray [at_lat ''KSEA'' 47])),
     fetch = (\<lambda>code. at_lat code 0), writeFileSync = (\<lambda>xs. None) \<rparr>"

section \<open>Properties of the allocator\<close>

lemma nextId_loop_reserved: "reserved (snd (nextId_loop s i)) = reserved s"
  by (induction s i rule: nextId_loop.induct) (subst nextId_loop.simps, simp)

lemma nextId_loop_fresh: "fst (nextId_loop s i) |\<notin>| reserved s"
  by (induction s i rule: nextId_loop.induct) (subst nextId_loop.simps, simp)

lemma nextId_unfold:
  "nextId s =
     (let r = (if id_ctr s > 900 then nextId_loop (s\<lparr>id_ctr := 1\<rparr>) 0
               else nextId_loop (s\<lparr>id_ctr := id_ctr s + 1\<rparr>) (id_ctr s))
      in (fst r, (snd r)\<lparr>reserved := finsert (fst r) (reserved (snd r))\<rparr>))"
  by (simp add: nextId_def Let_def split: prod.splits)

lemma nextId_loop_frame:
  "snd (nextId_loop s i) = s\<lparr>id_ctr := id_ctr (snd (nextId_loop s i))\<rparr>"
  by (induction s i rule: nextId_loop.induct) (subst (1 2) nextId_loop.simps, simp)

lemma nextId_frame:
  "snd (nextId s) = s\<lparr>id_ctr := id_ctr (snd (nextId s)),
                         reserved := finsert (fst (nextId s)) (reserved s)\<rparr>"
proof (cases "id_ctr s > 900")
  case True
  with nextId_loop_frame [of "s\<lparr>id_ctr := 1\<rparr>" 0]
    nextId_loop_reserved [of "s\<lparr>id_ctr := 1\<rparr>" 0]
  show ?thesis
    by (simp add: nextId_unfold Let_def)
next
  case False
  with nextId_loop_frame [of "s\<lparr>id_ctr := id_ctr s + 1\<rparr>" "id_ctr s"]
    nextId_loop_reserved [of "s\<lparr>id_ctr := id_ctr s + 1\<rparr>" "id_ctr s"]
  show ?thesis
    by (simp add: nextId_unfold Let_def)
qed

lemma nextId_fresh: "fst (nextId s) |\<notin>| reserved s"
  using nextId_loop_fresh [of "s\<lparr>id_ctr := 1\<rparr>" 0]
    nextId_loop_fresh [of "s\<lparr>id_ctr := id_ctr s + 1\<rparr>" "id_ctr s"]
  by (simp add: nextId_unfold Let_def)

lemma nextId_reserved: "reserved (snd (nextId s)) = finsert (fst (nextId s)) (reserved s)"
  using nextId_loop_reserved [of "s\<lparr>id_ctr := 1\<rparr>" 0]
    nextId_loop_reserved [of "s\<lparr>id_ctr := id_ctr s + 1\<rparr>" "id_ctr s"]
  by (simp add: nextId_unfold Let_def)

text \<open>
  C1. Whatever calls of nextId and releaseId came before (from the fresh object or from
  any other state), the value that nextId returns is not in the reserved set at the
  moment of the call and is in the reserved set right after it.
\<close>

theorem nextId_never_returns_reserved:
  assumes "nextId (alloc_run ops s0) = (i, s')"
  shows "i |\<notin>| reserved (alloc_run ops s0) \<and> i |\<in>| reserved s'
         \<and> reserved s' = finsert i (reserved (alloc_run ops s0))"
proof -
  from assms have i: "i = fst (nextId (alloc_run ops s0))"
    and s': "s' = snd (nextId (alloc_run ops s0))" by simp_all
  show ?thesis
    unfolding i s' using nextId_fresh [of "alloc_run ops s0"] nextId_reserved [of "alloc_run ops s0"]
    by simp
qed

theorem nextId_never_returns_reserved_witness:
  "fst (nextId (alloc_run [NextId, NextId, ReleaseId 1] new_api)) = 3
   \<and> 3 |\<notin>| reserved (alloc_run [NextId, NextId, ReleaseId 1] new_api)
   \<and> 3 |\<in>| reserved (snd (nextId (alloc_run [NextId, NextId, ReleaseId 1] new_api)))"
  using nextId_never_returns_reserved [of "[NextId, NextId, ReleaseId 1]" new_api
     "fst (nextId (alloc_run [NextId, NextId, ReleaseId 1] new_api))"
     "snd (nextId (alloc_run [NextId, NextId, ReleaseId 1] new_api))"]
  by (simp add: nextId_def nextId_loop.simps alloc_run_def releaseId_def new_api_def Let_def)

subsection \<open>The range of the ids\<close>

lemma alloc_run_append: "alloc_run (xs @ ys) s = alloc_run ys (alloc_run xs s)"
  by (simp add: alloc_run_def)

lemma cycle_ops_snoc: "cycle_ops (xs @ [x]) = cycle_ops xs @ [NextId, ReleaseId x]"
  by (simp add: cycle_ops_def)

lemma nextId_free:
  assumes "id_ctr s \<le> 900" "id_ctr s |\<notin>| reserved s"
  shows "nextId s = (id_ctr s, s\<lparr>id_ctr := id_ctr s + 1, reserved := finsert (id_ctr s) (reserved s)\<rparr>)"
  using assms by (simp add: nextId_unfold nextId_loop.simps)

lemma cycle_free:
  assumes "id_ctr s \<le> 900" "id_ctr s |\<notin>| reserved s"
  shows "alloc_run [NextId, ReleaseId (id_ctr s)] s = s\<lparr>id_ctr := id_ctr s + 1\<rparr>"
  using assms by (simp add: alloc_run_def nextId_free releaseId_def)

lemma cycles_free:
  assumes "id_ctr s + int n \<le> 901"
    and "\<forall>j. id_ctr s \<le> j \<and> j < id_ctr s + int n \<longrightarrow> j |\<notin>| reserved s"
  shows "alloc_run (cycle_ops [id_ctr s..id_ctr s + int n - 1]) s = s\<lparr>id_ctr := id_ctr s + int n\<rparr>"
  using assms
proof (induction n)
  case 0
  then show ?case by (simp add: alloc_run_def cycle_ops_def)
next
  case (Suc n)
  let ?k = "id_ctr s"
  let ?t = "s\<lparr>id_ctr := ?k + int n\<rparr>"
  have up: "[?k..?k + int n] = [?k..?k + int n - 1] @ [?k + int n]"
    using upto_rec2 [of ?k "?k + int n"] by simp
  have ih: "alloc_run (cycle_ops [?k..?k + int n - 1]) s = ?t"
    using Suc by simp
  have "alloc_run [NextId, ReleaseId (id_ctr ?t)] ?t = ?t\<lparr>id_ctr := id_ctr ?t + 1\<rparr>"
    using Suc.prems by (intro cycle_free) simp_all
  then have step: "alloc_run [NextId, ReleaseId (?k + int n)] ?t = s\<lparr>id_ctr := ?k + int (Suc n)\<rparr>"
    by (simp add: add.assoc)
  have "alloc_run (cycle_ops [?k..?k + int (Suc n) - 1]) s
        = alloc_run (cycle_ops ([?k..?k + int n - 1] @ [?k + int n])) s"
    using up by simp
  also have "\<dots> = alloc_run [NextId, ReleaseId (?k + int n)] ?t"
    by (simp only: cycle_ops_snoc alloc_run_append ih)
  finally show ?case using step by simp
qed

lemma cycles_from:
  assumes "id_ctr s = k" "m = k + int n - 1" "m \<le> 900"
    and "\<forall>j. k \<le> j \<and> j \<le> m \<longrightarrow> j |\<notin>| reserved s"
  shows "alloc_run (cycle_ops [k..m]) s = s\<lparr>id_ctr := m + 1\<rparr>"
  using cycles_free [of s n] assms by simp

lemma nextId_loop_least:
  "id_ctr s = i + 1 \<Longrightarrow>
   i \<le> fst (nextId_loop s i) \<and> (\<forall>j. i \<le> j \<and> j < fst (nextId_loop s i) \<longrightarrow> j |\<in>| reserved s)"
proof (induction s i rule: nextId_loop.induct)
  case (1 s i)
  show ?case
  proof (cases "i |\<in>| reserved s")
    case False
    then show ?thesis by (subst (1 2) nextId_loop.simps) auto
  next
    case True
    let ?s' = "s\<lparr>id_ctr := id_ctr s + 1\<rparr>"
    have ih: "id_ctr s \<le> fst (nextId_loop ?s' (id_ctr s))
        \<and> (\<forall>j. id_ctr s \<le> j \<and> j < fst (nextId_loop ?s' (id_ctr s)) \<longrightarrow> j |\<in>| reserved ?s')"
      using "1.IH" [OF True] by simp
    have eq: "nextId_loop s i = nextId_loop ?s' (id_ctr s)"
      using True by (subst nextId_loop.simps) simp
    show ?thesis
      unfolding eq using ih True "1.prems"
      by (auto simp add: order_le_less) (metis add.commute zless_imp_add1_zle order_le_less)
  qed
qed

lemma nextId_least:
  "(if id_ctr s > 900 then 0 else id_ctr s) \<le> fst (nextId s)
   \<and> (\<forall>j. (if id_ctr s > 900 then 0 else id_ctr s) \<le> j \<and> j < fst (nextId s) \<longrightarrow> j |\<in>| reserved s)"
  using nextId_loop_least [of "s\<lparr>id_ctr := 1\<rparr>" 0]
    nextId_loop_least [of "s\<lparr>id_ctr := id_ctr s + 1\<rparr>" "id_ctr s"]
  by (simp add: nextId_unfold Let_def)

lemma nextId_loop_ctr:
  "id_ctr s = i + 1 \<Longrightarrow> id_ctr (snd (nextId_loop s i)) = fst (nextId_loop s i) + 1"
  by (induction s i rule: nextId_loop.induct) (subst (1 2) nextId_loop.simps, simp)

lemma nextId_ctr: "id_ctr (snd (nextId s)) = fst (nextId s) + 1"
  using nextId_loop_ctr [of "s\<lparr>id_ctr := 1\<rparr>" 0]
    nextId_loop_ctr [of "s\<lparr>id_ctr := id_ctr s + 1\<rparr>" "id_ctr s"]
  by (simp add: nextId_unfold Let_def)

lemma alloc_step_id_ctr: "0 \<le> id_ctr s \<Longrightarrow> 0 \<le> id_ctr (alloc_step op s)"
proof (cases op)
  case NextId
  assume "0 \<le> id_ctr s"
  with nextId_least [of s] have "0 \<le> fst (nextId s)" by (simp split: if_splits)
  with NextId show ?thesis by (simp add: nextId_ctr)
next
  case (ReleaseId i)
  assume "0 \<le> id_ctr s"
  with ReleaseId show ?thesis by (simp add: releaseId_def)
qed

lemma alloc_run_id_ctr: "0 \<le> id_ctr s \<Longrightarrow> 0 \<le> id_ctr (alloc_run ops s)"
  unfolding alloc_run_def by (induction ops arbitrary: s) (simp_all add: alloc_step_id_ctr)





text \<open>
  The bound 900 is tested once, before the loop that skips reserved ids. When id 900 is
  still held (taken by the 900th call and never released, as an event subscription does),
  the call that finds the counter at 900 skips it and returns 901.
\<close>

lemma nextId_skips_past_900:
  "fst (nextId (alloc_run
         (cycle_ops [1..899] @ [NextId, NextId, ReleaseId 0] @ cycle_ops [1..899]) new_api)) = 901"
proof -
  let ?u = "new_api\<lparr>id_ctr := 1, reserved := {|900|}\<rparr>"
  have a: "alloc_run (cycle_ops [1..899]) new_api = new_api\<lparr>id_ctr := 899 + 1\<rparr>"
    by (rule cycles_from [where n = 899]) (simp_all add: new_api_def)
  have b: "alloc_run [NextId, NextId, ReleaseId 0] (new_api\<lparr>id_ctr := 899 + 1\<rparr>) = ?u"
    by (simp add: alloc_run_def nextId_unfold nextId_loop.simps new_api_def releaseId_def)
  have c: "alloc_run (cycle_ops [1..899]) ?u = ?u\<lparr>id_ctr := 899 + 1\<rparr>"
    by (rule cycles_from [where n = 899]) (simp_all add: new_api_def)
  show ?thesis
    unfolding alloc_run_append a b c
    by (simp add: nextId_unfold nextId_loop.simps new_api_def)
qed

section \<open>Properties of the event multiplexer\<close>

lemma nextId_fields [simp]:
  "calls (snd (nextId s)) = calls s"
  "eventListeners (snd (nextId s)) = eventListeners s"
  "store (snd (nextId s)) = store s"
  "fresh (snd (nextId s)) = fresh s"
  "invoked (snd (nextId s)) = invoked s"
  "console (snd (nextId s)) = console s"
  "timers (snd (nextId s)) = timers s"
  "pendingGets (snd (nextId s)) = pendingGets s"
  by (subst nextId_frame, simp)+

lemma digits_hd: "digits n \<noteq> [] \<and> hd (digits n) \<in> set ''0123456789''"
proof (induction n rule: digits.induct)
  case (1 n)
  show ?case
  proof (cases "n < 10")
    case True
    then have "n \<in> {0, 1, 2, 3, 4, 5, 6, 7, 8, 9}" by auto
    then show ?thesis by (subst (1 2) digits.simps) auto
  next
    case False
    with "1.IH" show ?thesis by (subst (1 2) digits.simps) simp
  qed
qed

lemma numToString_hd: "numToString i \<noteq> [] \<and> hd (numToString i) \<in> set ''-0123456789''"
  using digits_hd [of "nat i"] digits_hd [of "nat (- i)"] by (auto simp add: numToString_def)

lemma numToString_not_inherited: "numToString i \<notin> set prototype_names"
proof
  assume "numToString i \<in> set prototype_names"
  then have "hd (numToString i) \<in> set ''c_hiptv''"
    by (auto simp add: prototype_names_def)
  with numToString_hd [of i] show False by auto
qed

lemma getProp_numToString:
  "getProp s (numToString i) =
     (case eventListeners s (numToString i) of None \<Rightarrow> Missing | Some a \<Rightarrow> Own a)"
  using numToString_not_inherited [of i] by (simp add: getProp_def split: option.splits)

lemma getProp_Own: "getProp s n = Own a \<longleftrightarrow> eventListeners s n = Some a"
  by (simp add: getProp_def split: option.splits)




lemma addEventListener_returns:
  "fst (addEventListener n h s) = None \<longleftrightarrow> getProp s n \<noteq> Inherited"
  by (simp add: addEventListener_def Let_def split_beta split: property.splits option.splits)

lemma addEventListener_has_entry:
  "getProp s n \<noteq> Inherited \<Longrightarrow> eventListeners (snd (addEventListener n h s)) n \<noteq> None"
  by (simp add: addEventListener_def Let_def split_beta getProp_Own split: property.splits option.splits)















text \<open>
  What a later registration replays: the stored value when it is a number other than 0,
  and nothing when no event has arrived yet or when the stored value is 0.
\<close>

lemma addEventListener_replay:
  "eventListeners s n = Some a \<Longrightarrow>
   invoked (snd (addEventListener n h s)) =
     invoked s @ (case data (store s a) of
                    None \<Rightarrow> []
                  | Some d \<Rightarrow> if d \<noteq> 0 then [(h, d)] else [])"
  by (simp add: addEventListener_def getProp_def Let_def split: option.splits)

text \<open>
  C5. The replay does not happen for every dispatched value. On a fresh object, handler 1
  is registered for Pause (id 1), the event arrives with the value 0 and is dispatched to
  handler 1 and stored as the last value; handler 2, registered afterwards, is not
  invoked, though its registration returns normally. With the value 1 in place of 0 it is.
\<close>

theorem last_value_zero_is_not_replayed:
  "eventListeners (handleSystemEvent 1 0 (snd (addEventListener ''Pause'' 1 new_api))) ''Pause'' = Some 0
   \<and> data (store (handleSystemEvent 1 0 (snd (addEventListener ''Pause'' 1 new_api))) 0) = Some 0
   \<and> invoked (handleSystemEvent 1 0 (snd (addEventListener ''Pause'' 1 new_api))) = [(1, 0)]
   \<and> fst (addEventListener ''Pause'' 2
        (handleSystemEvent 1 0 (snd (addEventListener ''Pause'' 1 new_api)))) = None
   \<and> invoked (snd (addEventListener ''Pause'' 2
        (handleSystemEvent 1 0 (snd (addEventListener ''Pause'' 1 new_api))))) = [(1, 0)]
   \<and> invoked (snd (addEventListener ''Pause'' 2
        (handleSystemEvent 1 1 (snd (addEventListener ''Pause'' 1 new_api))))) = [(1, 1), (2, 1)]"
  by (simp add: nextId_def nextId_loop.simps new_api_def Let_def addEventListener_def
      handleSystemEvent_def getProp_def prototype_names_def numToString_def digits.simps)

text \<open>
  C10. off (removeEventListener) for an event name that has no entry throws a TypeError:
  so on any object on which the name has no entry, and so for every name on a fresh
  object. After a registration for the name (one that returned) the call returns normally.
\<close>

theorem off_without_entry_throws:
  "(eventListeners s n = None \<longrightarrow> off n h s = Inl TypeError)
   \<and> off n h new_api = Inl TypeError
   \<and> (fst (addEventListener n h' s) = None \<longrightarrow>
        (\<exists>s'. off n h (snd (addEventListener n h' s)) = Inr s'))"
proof (intro conjI impI)
  show "off n h s = Inl TypeError" if "eventListeners s n = None"
    using that by (simp add: off_def removeEventListener_def getProp_def)
  show "off n h new_api = Inl TypeError"
    by (simp add: off_def removeEventListener_def getProp_def new_api_def)
  show "\<exists>s'. off n h (snd (addEventListener n h' s)) = Inr s'"
    if "fst (addEventListener n h' s) = None"
  proof -
    from that have "getProp s n \<noteq> Inherited" by (simp add: addEventListener_returns)
    from addEventListener_has_entry [OF this, of h']
    obtain a where "getProp (snd (addEventListener n h' s)) n = Own a"
      by (auto simp add: getProp_Own)
    then show ?thesis by (simp add: off_def removeEventListener_def Let_def)
  qed
qed

theorem off_without_entry_throws_witness:
  "eventListeners new_api ''Pause'' = None
   \<and> off ''Pause'' 7 new_api = Inl TypeError
   \<and> fst (addEventListener ''Pause'' 7 new_api) = None
   \<and> (\<exists>s'. off ''Pause'' 7 (snd (addEventListener ''Pause'' 7 new_api)) = Inr s')"
  using off_without_entry_throws [of new_api "''Pause''" 7 7]
  by (simp add: new_api_def addEventListener_returns getProp_def prototype_names_def)

section \<open>Unknown property names\<close>

lemma releaseId_fields [simp]:
  "calls (releaseId i s) = calls s" "timers (releaseId i s) = timers s"
  "pendingGets (releaseId i s) = pendingGets s" "id_ctr (releaseId i s) = id_ctr s"
  "reserved (releaseId i s) = reserved s |-| {|i|}"
  by (simp_all add: releaseId_def)

lemma release_after_nextId: "reserved (snd (nextId s)) |-| {|fst (nextId s)|} = reserved s"
  using nextId_fresh [of s] by (simp add: nextId_reserved)

lemma addDataDefinitions_unknown:
  "find (\<lambda>q. SimVars q = None) names = Some q \<Longrightarrow>
   addDataDefinitions D names (map SimVars names) s =
     (Some (Error (unknown_msg ''get'' q)),
      releaseId D (s\<lparr>calls := calls s @ known_defs D SimVars names @ [ClearDataDefinition D]\<rparr>))"
proof (induction names arbitrary: s)
  case Nil
  then show ?case by simp
next
  case (Cons n names)
  show ?case
  proof (cases "SimVars n")
    case None
    with Cons.prems show ?thesis by (simp add: known_defs_def)
  next
    case (Some def)
    with Cons.prems have "find (\<lambda>q. SimVars q = None) names = Some q" by simp
    from Cons.IH [OF this] Some show ?thesis by (simp add: known_defs_def)
  qed
qed

text \<open>
  C9. set with a property name that (underscores turned into spaces) is not in the SimVars
  table throws an Error whose message holds that name; the id taken for the call has been
  released, so the reserved set is what it was before the call; no call has been made on
  the handle and no timer set. get, when q is the first of its names that is not in the
  table, throws an Error whose message holds q; the id has been released; the definitions
  added for the names in front of q are cleared, nothing is requested and nothing is left
  pending.
\<close>

theorem unknown_property_releases_id:
  "(SimVars (replaceAll CHR ''_'' CHR '' '' p) = None \<longrightarrow>
      fst (set_simvar SimVars coerce p v s) =
        Some (Error (''Cannot set SimVar: '' @ [CHR 0x22] @ replaceAll CHR ''_'' CHR '' '' p
                     @ [CHR 0x22] @ '' unknown.''))
      \<and> reserved (snd (set_simvar SimVars coerce p v s)) = reserved s
      \<and> fst (nextId s) |\<notin>| reserved (snd (set_simvar SimVars coerce p v s))
      \<and> calls (snd (set_simvar SimVars coerce p v s)) = calls s
      \<and> timers (snd (set_simvar SimVars coerce p v s)) = timers s)
   \<and> (find (\<lambda>q. SimVars q = None) (map (replaceAll CHR ''_'' CHR '' '') ps) = Some q \<longrightarrow>
      fst (get SimVars ps s) =
        Some (Error (''Cannot get SimVar: '' @ [CHR 0x22] @ q @ [CHR 0x22] @ '' unknown.''))
      \<and> reserved (snd (get SimVars ps s)) = reserved s
      \<and> fst (nextId s) |\<notin>| reserved (snd (get SimVars ps s))
      \<and> calls (snd (get SimVars ps s)) =
          calls s @ known_defs (fst (nextId s)) SimVars (map (replaceAll CHR ''_'' CHR '' '') ps)
            @ [ClearDataDefinition (fst (nextId s))]
      \<and> pendingGets (snd (get SimVars ps s)) = pendingGets s)"
proof (intro conjI impI)
  assume u: "SimVars (replaceAll CHR ''_'' CHR '' '' p) = None"
  then have e: "set_simvar SimVars coerce p v s =
     (Some (Error (unknown_msg ''set'' (replaceAll CHR ''_'' CHR '' '' p))),
      releaseId (fst (nextId s)) (snd (nextId s)))"
    by (simp add: set_simvar_def Let_def split_beta)
  show "fst (set_simvar SimVars coerce p v s) =
        Some (Error (''Cannot set SimVar: '' @ [CHR 0x22] @ replaceAll CHR ''_'' CHR '' '' p
                     @ [CHR 0x22] @ '' unknown.''))"
    by (simp add: e unknown_msg_def)
  show "reserved (snd (set_simvar SimVars coerce p v s)) = reserved s"
    by (simp add: e release_after_nextId)
  then show "fst (nextId s) |\<notin>| reserved (snd (set_simvar SimVars coerce p v s))"
    using nextId_fresh [of s] by simp
  show "calls (snd (set_simvar SimVars coerce p v s)) = calls s" by (simp add: e)
  show "timers (snd (set_simvar SimVars coerce p v s)) = timers s" by (simp add: e)
next
  assume u: "find (\<lambda>q. SimVars q = None) (map (replaceAll CHR ''_'' CHR '' '') ps) = Some q"
  let ?D = "fst (nextId s)"
  let ?s1 = "snd (nextId s)"
  let ?names = "map (replaceAll CHR ''_'' CHR '' '') ps"
  have e: "get SimVars ps s =
     (Some (Error (unknown_msg ''get'' q)),
      releaseId ?D (?s1\<lparr>calls := calls ?s1 @ known_defs ?D SimVars ?names @ [ClearDataDefinition ?D]\<rparr>))"
    by (simp add: get_def Let_def split_beta addDataDefinitions_unknown [OF u] del: map_map)
  show "fst (get SimVars ps s) =
        Some (Error (''Cannot get SimVar: '' @ [CHR 0x22] @ q @ [CHR 0x22] @ '' unknown.''))"
    by (simp add: e unknown_msg_def)
  show "reserved (snd (get SimVars ps s)) = reserved s"
    by (simp add: e release_after_nextId)
  then show "fst (nextId s) |\<notin>| reserved (snd (get SimVars ps s))"
    using nextId_fresh [of s] by simp
  show "calls (snd (get SimVars ps s)) =
          calls s @ known_defs ?D SimVars ?names @ [ClearDataDefinition ?D]"
    by (simp add: e)
  show "pendingGets (snd (get SimVars ps s)) = pendingGets s" by (simp add: e)
qed

theorem unknown_property_releases_id_witness:
  "demo_vars ''NO SUCH VAR'' = None
   \<and> fst (set_simvar demo_vars (\<lambda>v. v) ''NO_SUCH_VAR'' 5 new_api)
       = Some (Error (''Cannot set SimVar: '' @ [CHR 0x22] @ ''NO SUCH VAR'' @ [CHR 0x22] @ '' unknown.''))
   \<and> reserved (snd (set_simvar demo_vars (\<lambda>v. v) ''NO_SUCH_VAR'' 5 new_api)) = {||}
   \<and> find (\<lambda>q. demo_vars q = None)
        (map (replaceAll CHR ''_'' CHR '' '') [''PLANE_LATITUDE'', ''NO_SUCH_VAR'']) = Some ''NO SUCH VAR''
   \<and> fst (get demo_vars [''PLANE_LATITUDE'', ''NO_SUCH_VAR''] new_api)
       = Some (Error (''Cannot get SimVar: '' @ [CHR 0x22] @ ''NO SUCH VAR'' @ [CHR 0x22] @ '' unknown.''))
   \<and> calls (snd (get demo_vars [''PLANE_LATITUDE'', ''NO_SUCH_VAR''] new_api))
       = [AddToDataDefinition 1 ''PLANE LATITUDE'' ''radians'' ''FLOAT64'', ClearDataDefinition 1]
   \<and> reserved (snd (get demo_vars [''PLANE_LATITUDE'', ''NO_SUCH_VAR''] new_api)) = {||}"
  using unknown_property_releases_id [of demo_vars "''NO_SUCH_VAR''" "\<lambda>v. v" 5 new_api
      "[''PLANE_LATITUDE'', ''NO_SUCH_VAR'']" "''NO SUCH VAR''"]
  by (simp add: nextId_def nextId_loop.simps new_api_def Let_def set_simvar_def get_def
      releaseId_def replaceAll_def unknown_msg_def demo_vars_def known_defs_def)

text \<open>
  The released id comes back: after the failed \<^verbatim>\<open>set\<close> on a fresh object (which took
  id 1), 899 completed requests and one more that wraps the counter, nextId returns 1.
\<close>

lemma released_id_is_reused:
  "fst (nextId (alloc_run (cycle_ops [2..900] @ [NextId, ReleaseId 0])
          (snd (set_simvar demo_vars (\<lambda>v. v) ''NO_SUCH_VAR'' (5 :: int) new_api)))) = 1"
proof -
  let ?t = "new_api\<lparr>id_ctr := 2\<rparr>"
  have a: "snd (set_simvar demo_vars (\<lambda>v. v) ''NO_SUCH_VAR'' (5 :: int) new_api) = ?t"
    by (simp add: nextId_def nextId_loop.simps new_api_def Let_def set_simvar_def
        releaseId_def replaceAll_def demo_vars_def)
  have b: "alloc_run (cycle_ops [2..900]) ?t = ?t\<lparr>id_ctr := 900 + 1\<rparr>"
    by (rule cycles_from [where n = 899]) (simp_all add: new_api_def)
  have c: "alloc_run [NextId, ReleaseId 0] (?t\<lparr>id_ctr := 900 + 1\<rparr>) = new_api"
    by (simp add: alloc_run_def nextId_unfold nextId_loop.simps new_api_def releaseId_def)
  show ?thesis
    unfolding a alloc_run_append b c
    by (simp add: nextId_unfold nextId_loop.simps new_api_def)
qed

section \<open>Properties of the airport handler\<close>

subsection \<open>The paginated list\<close>

lemma fold_emit_not_listening:
  "\<not> listening st \<Longrightarrow> fold (emit_airportList rid) pages st = st"
  by (induction pages) (simp_all add: emit_airportList_def)

lemma fold_emit_no_last:
  assumes "listening st"
    and "\<forall>p \<in> set pages. requestID p = rid \<longrightarrow> entryNumber p < outOf p - 1"
  shows "fold (emit_airportList rid) pages st
         = st\<lparr>entries := entries st @ concat (map airports (filter (\<lambda>p. requestID p = rid) pages))\<rparr>"
  using assms
proof (induction pages arbitrary: st)
  case Nil
  then show ?case by simp
next
  case (Cons p pages)
  let ?st1 = "emit_airportList rid p st"
  have st1: "?st1 = (if requestID p = rid then st\<lparr>entries := entries st @ airports p\<rparr> else st)"
    using Cons.prems by (auto simp add: emit_airportList_def list_handler_def Let_def)
  then have l: "listening ?st1" using Cons.prems(1) by simp
  have "fold (emit_airportList rid) pages ?st1
        = ?st1\<lparr>entries := entries ?st1 @ concat (map airports (filter (\<lambda>p. requestID p = rid) pages))\<rparr>"
    using Cons.prems(2) by (intro Cons.IH l) simp
  then show ?case by (simp add: st1)
qed

text \<open>
  C3. The pages of the request are accumulated in order, and the accumulation stops exactly
  at the first page with entryNumber >= outOf - 1: when the pages before p stay below the
  bound and p reaches it, the result holds the entries of those pages and of p, the handler
  is unregistered and init goes on, whatever follows p; and as long as no page reaches the
  bound, every page is accumulated and the handler stays registered. With outOf = 3 this is
  the page with entryNumber 2, and a fourth page is not read.
\<close>

theorem pagination_stops_at_last_page:
  "((\<forall>q \<in> set (pre :: 'a airportList list). requestID q = rid \<longrightarrow> entryNumber q < outOf q - 1)
      \<and> requestID p = rid \<and> entryNumber p \<ge> outOf p - 1 \<longrightarrow>
      requestFacilitiesList rid (pre @ p # rest)
        = \<lparr>entries = concat (map airports (filter (\<lambda>q. requestID q = rid) pre)) @ airports p,
           listening = False, resolved = True\<rparr>)
   \<and> ((\<forall>q \<in> set (pages :: 'a airportList list). requestID q = rid \<longrightarrow> entryNumber q < outOf q - 1) \<longrightarrow>
      requestFacilitiesList rid pages
        = \<lparr>entries = concat (map airports (filter (\<lambda>q. requestID q = rid) pages)),
           listening = True, resolved = False\<rparr>)"
proof (intro conjI impI)
  let ?init = "\<lparr>entries = [], listening = True, resolved = False\<rparr> :: 'a listing"
  assume a: "(\<forall>q \<in> set pre. requestID q = rid \<longrightarrow> entryNumber q < outOf q - 1)
      \<and> requestID p = rid \<and> entryNumber p \<ge> outOf p - 1"
  then have pre: "fold (emit_airportList rid) pre ?init
        = ?init\<lparr>entries := entries ?init @ concat (map airports (filter (\<lambda>q. requestID q = rid) pre))\<rparr>"
    by (intro fold_emit_no_last) simp_all
  let ?st = "\<lparr>entries = concat (map airports (filter (\<lambda>q. requestID q = rid) pre)) @ airports p,
           listening = False, resolved = True\<rparr> :: 'a listing"
  have "emit_airportList rid p (fold (emit_airportList rid) pre ?init) = ?st"
    using a by (simp add: pre emit_airportList_def list_handler_def Let_def)
  moreover have "fold (emit_airportList rid) rest ?st = ?st"
    by (rule fold_emit_not_listening) simp
  ultimately show "requestFacilitiesList rid (pre @ p # rest) = ?st"
    by (simp add: requestFacilitiesList_def)
next
  let ?init = "\<lparr>entries = [], listening = True, resolved = False\<rparr> :: 'a listing"
  assume "\<forall>q \<in> set pages. requestID q = rid \<longrightarrow> entryNumber q < outOf q - 1"
  then have "fold (emit_airportList rid) pages ?init
        = ?init\<lparr>entries := entries ?init @ concat (map airports (filter (\<lambda>q. requestID q = rid) pages))\<rparr>"
    by (intro fold_emit_no_last) simp_all
  then show "requestFacilitiesList rid pages
        = \<lparr>entries = concat (map airports (filter (\<lambda>q. requestID q = rid) pages)),
           listening = True, resolved = False\<rparr>"
    by (simp add: requestFacilitiesList_def)
qed

theorem pagination_stops_at_last_page_witness:
  "requestFacilitiesList 100
     ([page_of_3 0 [''KSEA''], page_of_3 1 [''KLAX'', ''KSFO'']] @ page_of_3 2 [''EHAM'']
        # [page_of_3 3 [''EGLL'']])
   = \<lparr>entries = [''KSEA'', ''KLAX'', ''KSFO'', ''EHAM''], listening = False, resolved = True\<rparr>
   \<and> requestFacilitiesList 100 [page_of_3 0 [''KSEA''], page_of_3 1 [''KLAX'', ''KSFO'']]
   = \<lparr>entries = [''KSEA'', ''KLAX'', ''KSFO''], listening = True, resolved = False\<rparr>"
  using pagination_stops_at_last_page
    [of "[page_of_3 0 [''KSEA''], page_of_3 1 [''KLAX'', ''KSFO'']]" 100 "page_of_3 2 [''EHAM'']"
        "[page_of_3 3 [''EGLL'']]" "[page_of_3 0 [''KSEA''], page_of_3 1 [''KLAX'', ''KSFO'']]"]
  by (simp add: page_of_3_def)

subsection \<open>The cache file\<close>

lemma processAirports_map: "processAirports f lst acc = acc @ map f lst"
  by (induction lst arbitrary: acc) simp_all

lemma rebuild_result:
  "rebuild e lst st =
     (case writeFileSync e (map (fetch e) lst) of
        None \<Rightarrow> Inr (st\<lparr>log := log st @ [''No airport database found: building a new one.''],
                        cache := Some (JArray (map (fetch e) lst)),
                        closes := closes st + 1,
                        written := Some (map (fetch e) lst), finished := True\<rparr>)
      | Some w \<Rightarrow> Inl w)"
  by (simp add: rebuild_def Let_def processAirports_map split: option.splits)

lemma read_fails:
  "existsSync e \<Longrightarrow> readFileSync e = Inl x \<Longrightarrow>
   init_cache e lst st =
     rebuild e lst (st\<lparr>log := log st @ [''file read error:'', ''zlib error:'', ''JSON parse error:'']\<rparr>)"
  by (simp add: init_cache_def Let_def)

lemma gunzip_fails:
  "existsSync e \<Longrightarrow> readFileSync e = Inr z \<Longrightarrow> gunzipSync e z = Inl x \<Longrightarrow>
   init_cache e lst st =
     rebuild e lst (st\<lparr>log := log st @ [''zlib error:'', ''JSON parse error:'']\<rparr>)"
  by (simp add: init_cache_def Let_def)

lemma parse_fails:
  "existsSync e \<Longrightarrow> readFileSync e = Inr z \<Longrightarrow> gunzipSync e z = Inr j \<Longrightarrow> JSON_parse e j = Inl x \<Longrightarrow>
   init_cache e lst st = rebuild e lst (st\<lparr>log := log st @ [''JSON parse error:'']\<rparr>)"
  by (simp add: init_cache_def Let_def)

lemma count_mismatch:
  "existsSync e \<Longrightarrow> readFileSync e = Inr z \<Longrightarrow> gunzipSync e z = Inr j \<Longrightarrow>
   JSON_parse e j = Inr (JArray xs) \<Longrightarrow> length xs \<noteq> length lst \<Longrightarrow>
   init_cache e lst st = Inr (st\<lparr>cache := Some (JArray xs), closes := closes st + 1,
       log := log st @ [''MSFS has '' @ numToString (int (length lst)) @ '' airports, db has ''
                         @ numToString (int (length xs)) @ '' airports.'',
                        ''You may need to update your version of msfs-simconnet-api-wrapper...''],
       finished := True\<rparr>)"
  by (simp add: init_cache_def Let_def)

text \<open>
  C8, as stated, fails: a failure to read the cache file can end with an exception leaving
  init. When the path of the cache file is a directory, the file exists, reading it fails
  and is logged, the rebuild runs, and the write of the rebuilt file, which is outside
  every try block, throws: init ends with that exception.
\<close>

theorem cache_failure_then_write_failure_propagates:
  "existsSync unwritable \<and> readFileSync unwritable = Inl (Error ''EISDIR'')
   \<and> init_cache unwritable [''KSEA'', ''KLAX''] new_handler = Inl (Error ''EISDIR'')"
  by (simp add: unwritable_def init_cache_def rebuild_def Let_def)

text \<open>
  C8, amended. When the cache file exists and reading it, decompressing it or parsing it
  throws, the failure is logged (together with the failures that follow from it: nothing
  to decompress, nothing to parse), nothing of the file is used and init goes on with the
  full rebuild, which fetches the details for every entry of the list and writes the new
  file. What the read, the decompression or the parse threw does not leave init: init
  returns normally, with the rebuilt airports as the airport set, when the new file is
  written, and ends with the exception of the write when that throws. When the file is read
  and holds an array whose length is not the number of airports the simulator listed, two
  warnings are logged and the array of the file is the airport set; nothing is rebuilt or
  written.
\<close>

theorem cache_failure_rebuilds_and_mismatch_warns:
  "(existsSync e \<and> readFileSync e = Inl x \<longrightarrow>
      init_cache e lst st =
        (case writeFileSync e (map (fetch e) lst) of
           None \<Rightarrow> Inr (st\<lparr>log := log st @ [''file read error:'', ''zlib error:'', ''JSON parse error:'',
                                            ''No airport database found: building a new one.''],
                           cache := Some (JArray (map (fetch e) lst)), closes := closes st + 1,
                           written := Some (map (fetch e) lst), finished := True\<rparr>)
         | Some w \<Rightarrow> Inl w))
   \<and> (existsSync e \<and> readFileSync e = Inr z \<and> gunzipSync e z = Inl x \<longrightarrow>
      init_cache e lst st =
        (case writeFileSync e (map (fetch e) lst) of
           None \<Rightarrow> Inr (st\<lparr>log := log st @ [''zlib error:'', ''JSON parse error:'',
                                            ''No airport database found: building a new one.''],
                           cache := Some (JArray (map (fetch e) lst)), closes := closes st + 1,
                           written := Some (map (fetch e) lst), finished := True\<rparr>)
         | Some w \<Rightarrow> Inl w))
   \<and> (existsSync e \<and> readFileSync e = Inr z \<and> gunzipSync e z = Inr j \<and> JSON_parse e j = Inl x \<longrightarrow>
      init_cache e lst st =
        (case writeFileSync e (map (fetch e) lst) of
           None \<Rightarrow> Inr (st\<lparr>log := log st @ [''JSON parse error:'',
                                            ''No airport database found: building a new one.''],
                           cache := Some (JArray (map (fetch e) lst)), closes := closes st + 1,
                           written := Some (map (fetch e) lst), finished := True\<rparr>)
         | Some w \<Rightarrow> Inl w))
   \<and> (existsSync e \<and> readFileSync e = Inr z \<and> gunzipSync e z = Inr j
        \<and> JSON_parse e j = Inr (JArray xs) \<and> length xs \<noteq> length lst \<longrightarrow>
      init_cache e lst st =
        Inr (st\<lparr>cache := Some (JArray xs), closes := closes st + 1,
                log := log st @ [''MSFS has '' @ numToString (int (length lst)) @ '' airports, db has ''
                                  @ numToString (int (length xs)) @ '' airports.'',
                                 ''You may need to update your version of msfs-simconnet-api-wrapper...''],
                finished := True\<rparr>))"
proof (intro conjI impI)
  assume "existsSync e \<and> readFileSync e = Inl x"
  then show "init_cache e lst st =
        (case writeFileSync e (map (fetch e) lst) of
           None \<Rightarrow> Inr (st\<lparr>log := log st @ [''file read error:'', ''zlib error:'', ''JSON parse error:'',
                                            ''No airport database found: building a new one.''],
                           cache := Some (JArray (map (fetch e) lst)), closes := closes st + 1,
                           written := Some (map (fetch e) lst), finished := True\<rparr>)
         | Some w \<Rightarrow> Inl w)"
    using read_fails [of e x lst st] by (simp add: rebuild_result split: option.splits)
next
  assume "existsSync e \<and> readFileSync e = Inr z \<and> gunzipSync e z = Inl x"
  then show "init_cache e lst st =
        (case writeFileSync e (map (fetch e) lst) of
           None \<Rightarrow> Inr (st\<lparr>log := log st @ [''zlib error:'', ''JSON parse error:'',
                                            ''No airport database found: building a new one.''],
                           cache := Some (JArray (map (fetch e) lst)), closes := closes st + 1,
                           written := Some (map (fetch e) lst), finished := True\<rparr>)
         | Some w \<Rightarrow> Inl w)"
    using gunzip_fails [of e z x lst st] by (simp add: rebuild_result split: option.splits)
next
  assume "existsSync e \<and> readFileSync e = Inr z \<and> gunzipSync e z = Inr j \<and> JSON_parse e j = Inl x"
  then show "init_cache e lst st =
        (case writeFileSync e (map (fetch e) lst) of
           None \<Rightarrow> Inr (st\<lparr>log := log st @ [''JSON parse error:'',
                                            ''No airport database found: building a new one.''],
                           cache := Some (JArray (map (fetch e) lst)), closes := closes st + 1,
                           written := Some (map (fetch e) lst), finished := True\<rparr>)
         | Some w \<Rightarrow> Inl w)"
    using parse_fails [of e z j x lst st] by (simp add: rebuild_result split: option.splits)
next
  assume "existsSync e \<and> readFileSync e = Inr z \<and> gunzipSync e z = Inr j
        \<and> JSON_parse e j = Inr (JArray xs) \<and> length xs \<noteq> length lst"
  then show "init_cache e lst st =
        Inr (st\<lparr>cache := Some (JArray xs), closes := closes st + 1,
                log := log st @ [''MSFS has '' @ numToString (int (length lst)) @ '' airports, db has ''
                                  @ numToString (int (length xs)) @ '' airports.'',
                                 ''You may need to update your version of msfs-simconnet-api-wrapper...''],
                finished := True\<rparr>)"
    using count_mismatch [of e z j xs lst st] by simp
qed

theorem cache_failure_rebuilds_and_mismatch_warns_witness:
  "init_cache unreadable [''KSEA'', ''KLAX''] new_handler =
     Inr \<lparr> cache = Some (JArray [at_lat ''KSEA'' 0, at_lat ''KLAX'' 0]), closes = 1,
           log = [''file read error:'', ''zlib error:'', ''JSON parse error:'',
                  ''No airport database found: building a new one.''],
           written = Some [at_lat ''KSEA'' 0, at_lat ''KLAX'' 0], finished = True \<rparr>
   \<and> init_cache (unreadable\<lparr>readFileSync := Inr ''zipped'', gunzipSync := (\<lambda>z. Inl (Error ''Z_DATA_ERROR''))\<rparr>)
        [''KSEA'', ''KLAX''] new_handler =
     Inr \<lparr> cache = Some (JArray [at_lat ''KSEA'' 0, at_lat ''KLAX'' 0]), closes = 1,
           log = [''zlib error:'', ''JSON parse error:'',
                  ''No airport database found: building a new one.''],
           written = Some [at_lat ''KSEA'' 0, at_lat ''KLAX'' 0], finished = True \<rparr>
   \<and> init_cache (unreadable\<lparr>readFileSync := Inr ''zipped'', JSON_parse := (\<lambda>j. Inl SyntaxError)\<rparr>)
        [''KSEA'', ''KLAX''] new_handler =
     Inr \<lparr> cache = Some (JArray [at_lat ''KSEA'' 0, at_lat ''KLAX'' 0]), closes = 1,
           log = [''JSON parse error:'', ''No airport database found: building a new one.''],
           written = Some [at_lat ''KSEA'' 0, at_lat ''KLAX'' 0], finished = True \<rparr>
   \<and> init_cache unwritable [''KSEA'', ''KLAX''] new_handler = Inl (Error ''EISDIR'')
   \<and> init_cache stale [''KSEA'', ''KLAX''] new_handler =
     Inr \<lparr> cache = Some (JArray [at_lat ''KSEA'' 47]), closes = 1,
           log = [''MSFS has 2 airports, db has 1 airports.'',
                  ''You may need to update your version of msfs-simconnet-api-wrapper...''],
           written = None, finished = True \<rparr>"
proof -
  let ?g = "unreadable\<lparr>readFileSync := Inr ''zipped'', gunzipSync := (\<lambda>z. Inl (Error ''Z_DATA_ERROR''))\<rparr>"
  let ?p = "unreadable\<lparr>readFileSync := Inr ''zipped'', JSON_parse := (\<lambda>j. Inl SyntaxError)\<rparr>"
  let ?l = "[''KSEA'', ''KLAX'']"
  note t = cache_failure_rebuilds_and_mismatch_warns
  have a: "init_cache unreadable ?l new_handler =
     Inr \<lparr> cache = Some (JArray [at_lat ''KSEA'' 0, at_lat ''KLAX'' 0]), closes = 1,
           log = [''file read error:'', ''zlib error:'', ''JSON parse error:'',
                  ''No airport database found: building a new one.''],
           written = Some [at_lat ''KSEA'' 0, at_lat ''KLAX'' 0], finished = True \<rparr>"
    using t [of unreadable "Error ''EACCES''" ?l new_handler]
    by (simp add: unreadable_def new_handler_def)
  have b: "init_cache ?g ?l new_handler =
     Inr \<lparr> cache = Some (JArray [at_lat ''KSEA'' 0, at_lat ''KLAX'' 0]), closes = 1,
           log = [''zlib error:'', ''JSON parse error:'',
                  ''No airport database found: building a new one.''],
           written = Some [at_lat ''KSEA'' 0, at_lat ''KLAX'' 0], finished = True \<rparr>"
    using t [of ?g "Error ''Z_DATA_ERROR''" ?l new_handler "''zipped''"]
    by (simp add: unreadable_def new_handler_def)
  have c: "init_cache ?p ?l new_handler =
     Inr \<lparr> cache = Some (JArray [at_lat ''KSEA'' 0, at_lat ''KLAX'' 0]), closes = 1,
           log = [''JSON parse error:'', ''No airport database found: building a new one.''],
           written = Some [at_lat ''KSEA'' 0, at_lat ''KLAX'' 0], finished = True \<rparr>"
    using t [of ?p SyntaxError ?l new_handler "''zipped''" "''zipped''"]
    by (simp add: unreadable_def new_handler_def)
  have w: "init_cache unwritable ?l new_handler = Inl (Error ''EISDIR'')"
    using t [of unwritable "Error ''EISDIR''" ?l new_handler]
    by (simp add: unwritable_def)
  have d: "init_cache stale ?l new_handler =
     Inr \<lparr> cache = Some (JArray [at_lat ''KSEA'' 47]), closes = 1,
           log = [''MSFS has 2 airports, db has 1 airports.'',
                  ''You may need to update your version of msfs-simconnet-api-wrapper...''],
           written = None, finished = True \<rparr>"
    using t [of stale _ ?l new_handler "''zipped''" "''json''" "[at_lat ''KSEA'' 47]"]
    by (simp add: stale_def new_handler_def numToString_def digits.simps)
  from a b c w d show ?thesis by blast
qed

subsection \<open>Queries on the cached airports\<close>

lemma getVarArg_AIRPORT:
  "getVarArg (CHR ''A'' # CHR ''I'' # CHR ''R'' # CHR ''P'' # CHR ''O'' # CHR ''R'' # CHR ''T''
              # CHR '':'' # code) = Some code"
  by (simp add: getVarArg_def)

text \<open>
  What the query AIRPORT: + code returns on any cache: the first cached airport with that
  icao, or undefined, inside an object keyed by the query, inside the object keyed by the
  property name.
\<close>

lemma airport_get_AIRPORT:
  "airport_get nearby cached (''AIRPORT:'' @ code) =
     Object [(''AIRPORT:'' @ replaceAll CHR '' '' CHR ''_'' code,
              Object [(''AIRPORT:'' @ code,
                       (case find (\<lambda>a. icao a = code) cached of
                          None \<Rightarrow> Undefined
                        | Some a \<Rightarrow> AirportVal a))])]"
  by (simp add: airport_get_def Let_def ALL_AIRPORTS_def NEARBY_AIRPORTS_def AIRPORT_def
      startsWith_def getAirport_def getVarArg_AIRPORT replaceAll_def)

text \<open>
  C7. The query AIRPORT:KSEA does not return the airport itself. On a cache that holds
  KSEA the value under the property name is an object with the one key AIRPORT:KSEA,
  and the airport is the value of that key; on a cache without KSEA the value under the
  property name is such an object again, holding undefined, and not undefined itself.
  The queries ALL AIRPORTS and NEARBY AIRPORTS put their value directly under the
  property name.
\<close>

theorem airport_query_wraps_twice:
  "airport_get (\<lambda>v. []) [at_lat ''KLAX'' 33, at_lat ''KSEA'' 47] ''AIRPORT:KSEA''
     = Object [(''AIRPORT:KSEA'', Object [(''AIRPORT:KSEA'', AirportVal (at_lat ''KSEA'' 47))])]
   \<and> airport_get (\<lambda>v. []) [at_lat ''KLAX'' 33, at_lat ''KSEA'' 47] ''AIRPORT:KSEA''
     \<noteq> Object [(''AIRPORT:KSEA'', AirportVal (at_lat ''KSEA'' 47))]
   \<and> airport_get (\<lambda>v. []) [at_lat ''KLAX'' 33] ''AIRPORT:KSEA''
     = Object [(''AIRPORT:KSEA'', Object [(''AIRPORT:KSEA'', Undefined)])]
   \<and> airport_get (\<lambda>v. []) [at_lat ''KLAX'' 33] ''AIRPORT:KSEA''
     \<noteq> Object [(''AIRPORT:KSEA'', Undefined)]
   \<and> airport_get (\<lambda>v. []) [at_lat ''KLAX'' 33] ''ALL AIRPORTS''
     = Object [(''ALL_AIRPORTS'', AirportArray [at_lat ''KLAX'' 33])]"
  using airport_get_AIRPORT [of "\<lambda>v. []" "[at_lat ''KLAX'' 33, at_lat ''KSEA'' 47]" "''KSEA''"]
    airport_get_AIRPORT [of "\<lambda>v. []" "[at_lat ''KLAX'' 33]" "''KSEA''"]
  by (simp add: replaceAll_def at_lat_def airport_get_def ALL_AIRPORTS_def Let_def)

end
